theory Spec2Isabelle
  imports Complex_Main
begin

section \<open>The table-of-contents component (src/lib/Toc.svelte)\<close>

text \<open>
  The component is one Svelte file: a set of component variables (the exported props and
  the local \<^verbatim>\<open>window_width\<close>), functions that read and assign them, handlers bound to
  window and template events, and three reactive statements. The model keeps the
  component variables in a record \<open>toc\<close>, the part of the browser the code reads and
  writes in a record \<open>browser\<close>, and every function of the script as a function on the
  pair.
\<close>

subsection \<open>JavaScript numbers and their comparisons\<close>

text \<open>
  A JavaScript number is NaN, an infinity or a finite double; every finite double is a
  rational, and the component only compares numbers (and once halves an integer), so a
  finite number is modelled by the rational it denotes.
\<close>

datatype jsnum = NaN | NegInf | Fin rat | PosInf

text \<open>\<^verbatim>\<open>a < b\<close>: false as soon as one side is NaN.\<close>

fun js_lt :: "jsnum \<Rightarrow> jsnum \<Rightarrow> bool" where
  "js_lt NaN _ = False"
| "js_lt _ NaN = False"
| "js_lt (Fin a) (Fin b) = (a < b)"
| "js_lt NegInf NegInf = False"
| "js_lt NegInf _ = True"
| "js_lt _ NegInf = False"
| "js_lt PosInf _ = False"
| "js_lt _ PosInf = True"

text \<open>\<^verbatim>\<open>a > b\<close> is \<^verbatim>\<open>b < a\<close>; \<^verbatim>\<open>a >= b\<close> is false with a NaN and the negation of \<^verbatim>\<open>a < b\<close> otherwise.\<close>

definition js_gt :: "jsnum \<Rightarrow> jsnum \<Rightarrow> bool" where
  "js_gt a b = js_lt b a"

definition js_ge :: "jsnum \<Rightarrow> jsnum \<Rightarrow> bool" where
  "js_ge a b = (a \<noteq> NaN \<and> b \<noteq> NaN \<and> \<not> js_lt a b)"

text \<open>ToNumber of a variable that may still be \<^verbatim>\<open>undefined\<close> (\<open>None\<close>): NaN.\<close>

definition to_number :: "jsnum option \<Rightarrow> jsnum" where
  "to_number v = (case v of None \<Rightarrow> NaN | Some n \<Rightarrow> n)"

text \<open>Truthiness of a number (\<^verbatim>\<open>if (flashClickedHeadingsFor)\<close>): neither zero nor NaN.\<close>

definition truthy_num :: "jsnum \<Rightarrow> bool" where
  "truthy_num n = (n \<noteq> NaN \<and> n \<noteq> Fin 0)"

subsection \<open>The browser\<close>

text \<open>
  DOM elements are references. \<open>None\<close> stands for both \<^verbatim>\<open>null\<close> and
  \<^verbatim>\<open>undefined\<close> wherever the code only tests truthiness.
\<close>

type_synonym ref = nat

datatype behavior = Auto | Smooth | Instant

datatype error = Error string | SyntaxError string

text \<open>
  Scroll commands the component issues: \<^verbatim>\<open>node.scrollIntoView({behavior, block: 'start'})\<close>
  and \<^verbatim>\<open>nav.scrollTo({top, behavior})\<close>.
\<close>

datatype scroll_req = ScrollIntoView ref behavior | ScrollTo ref rat behavior

record browser =
  has_document :: bool
  querySelectorAll :: "string \<Rightarrow> error + ref list"
  querySelector :: "string \<Rightarrow> error + ref option"
  rect_top :: "ref \<Rightarrow> jsnum"
  node_id :: "ref \<Rightarrow> string"
  contains :: "ref \<Rightarrow> ref \<Rightarrow> bool"
  offsetTop :: "ref \<Rightarrow> int"
  offsetHeight :: "ref \<Rightarrow> int"
  has_scrollTo :: bool
  classList :: "ref \<Rightarrow> string list"
  location_hash :: string
  console :: "string list"
  scroll_requests :: "scroll_req list"
  timeouts :: "(jsnum \<times> ref \<times> string) list"
  observed :: "ref option"
  dispatched :: "bool list"

text \<open>
  \<open>has_document\<close> is \<^verbatim>\<open>typeof document !== 'undefined'\<close>; the two query functions
  throw a SyntaxError on a selector that does not parse; \<open>rect_top\<close> is
  \<^verbatim>\<open>getBoundingClientRect().top\<close> at the current scroll position; \<open>has_scrollTo\<close>
  says whether elements have a \<^verbatim>\<open>scrollTo\<close> method (the code calls it through
  \<^verbatim>\<open>?.\<close>). The remaining fields are what the component writes: class lists, the
  location fragment set by \<^verbatim>\<open>history.replaceState\<close>, console warnings, scroll
  commands in the order issued, pending \<^verbatim>\<open>setTimeout\<close> callbacks (delay, node, class
  to remove), the element the MutationObserver watches, and the \<^verbatim>\<open>open\<close> events
  dispatched to the host.
\<close>

subsection \<open>Component variables\<close>

datatype page_body = Selector string | Element ref

record toc =
  activeHeading :: "ref option"
  activeHeadingScrollOffset :: jsnum
  activeTocLi :: "ref option"
  aside :: "ref option"
  breakpoint :: jsnum
  desktop :: bool
  flashClickedHeadingsFor :: jsnum
  getHeadingIds :: "(browser \<Rightarrow> ref \<Rightarrow> string) option"
  headings :: "ref list"
  headingSelector :: string
  hide :: bool
  autoHide :: bool
  keepActiveTocItemInView :: bool
  minItems :: jsnum
  nav :: "ref option"
  "open" :: bool
  pageBody :: page_body
  scrollBehavior :: behavior
  tocItems :: "ref option list"
  warnOnEmpty :: bool
  window_width :: "jsnum option"

text \<open>The defaults of the \<^verbatim>\<open>export let\<close> declarations (lines 6-36).\<close>

definition default_toc :: toc where
  "default_toc = \<lparr>
     activeHeading = None,
     activeHeadingScrollOffset = Fin 100,
     activeTocLi = None,
     aside = None,
     breakpoint = Fin 1000,
     desktop = True,
     flashClickedHeadingsFor = Fin 1500,
     getHeadingIds = Some (\<lambda>b node. node_id b node),
     headings = [],
     headingSelector = '':is(h2, h3, h4):not(.toc-exclude)'',
     hide = False,
     autoHide = True,
     keepActiveTocItemInView = True,
     minItems = Fin 0,
     nav = None,
     open = False,
     pageBody = Selector ''body'',
     scrollBehavior = Smooth,
     tocItems = [],
     warnOnEmpty = True,
     window_width = None \<rparr>"

text \<open>\<^verbatim>\<open>tocItems[idx]\<close>: reading past the end of a JavaScript array gives \<^verbatim>\<open>undefined\<close>.\<close>

definition toc_item :: "toc \<Rightarrow> nat \<Rightarrow> ref option" where
  "toc_item s idx = (if idx < length (tocItems s) then tocItems s ! idx else None)"

subsection \<open>\<^verbatim>\<open>set_active_heading\<close> (lines 82-95)\<close>

text \<open>
  \<^verbatim>\<open>let idx = headings.length; while (idx--) { ... }\<close>: the loop variable before the
  test is the last argument; \<^verbatim>\<open>idx--\<close> tests it and then decrements, so the body
  runs with \<open>i\<close> when the argument is \<open>Suc i\<close> and the loop ends without any
  assignment when it is \<open>0\<close>.
\<close>

fun set_active_loop :: "browser \<Rightarrow> toc \<Rightarrow> nat \<Rightarrow> toc" where
  "set_active_loop b s 0 = s"
| "set_active_loop b s (Suc i) =
     (if js_lt (rect_top b (headings s ! i)) (activeHeadingScrollOffset s) \<or> i = 0
      then s\<lparr>activeHeading := Some (headings s ! i), activeTocLi := toc_item s i\<rparr>
      else set_active_loop b s i)"

definition set_active_heading :: "browser \<Rightarrow> toc \<Rightarrow> toc" where
  "set_active_heading b s = set_active_loop b s (length (headings s))"

subsection \<open>\<^verbatim>\<open>requery_headings\<close> (lines 50-66)\<close>

text \<open>The text of the \<^verbatim>\<open>console.warn\<close> diagnostic.\<close>

definition empty_warning :: "toc \<Rightarrow> string" where
  "empty_warning s =
     ''svelte-toc found no headings for headingSelector='' @ [CHR 0x27] @ headingSelector s
     @ [CHR 0x27] @ ''. '' @ (if autoHide s then ''Hiding'' else ''Showing empty'')
     @ '' table of contents.''"

definition requery_headings :: "toc \<times> browser \<Rightarrow> error + toc \<times> browser" where
  "requery_headings sb =
     (case sb of (s, b) \<Rightarrow>
        if \<not> has_document b then Inr (s, b)
        else (case querySelectorAll b (headingSelector s) of
          Inl e \<Rightarrow> Inl e
        | Inr hs \<Rightarrow>
            let s1 = set_active_heading b (s\<lparr>headings := hs\<rparr>) in
            if length (headings s1) = 0 then
              Inr (if autoHide s1 then s1\<lparr>hide := True\<rparr> else s1,
                   if warnOnEmpty s1 then b\<lparr>console := console b @ [empty_warning s1]\<rparr> else b)
            else if hide s1 \<and> autoHide s1 then Inr (s1\<lparr>hide := False\<rparr>, b)
            else Inr (s1, b)))"

subsection \<open>\<^verbatim>\<open>onMount\<close> (lines 70-81)\<close>

text \<open>
  A selector string is resolved with \<^verbatim>\<open>document.querySelector\<close> and the result is
  assigned to \<^verbatim>\<open>pageBody\<close> before it is tested, so the message of the error is built
  from \<^verbatim>\<open>null\<close>. A throw is \<open>Inl\<close>; otherwise a MutationObserver is attached to
  the element.
\<close>

definition onMount :: "toc \<times> browser \<Rightarrow> error + toc \<times> browser" where
  "onMount sb =
     (case sb of (s, b) \<Rightarrow>
        (case pageBody s of
          Selector sel \<Rightarrow>
            (case querySelector b sel of
               Inl e \<Rightarrow> Inl e
             | Inr None \<Rightarrow> Inl (Error ''Could not find page body element: null'')
             | Inr (Some el) \<Rightarrow> Inr (s\<lparr>pageBody := Element el\<rparr>, b\<lparr>observed := Some el\<rparr>))
        | Element el \<Rightarrow> Inr (s, b\<lparr>observed := Some el\<rparr>)))"

subsection \<open>\<^verbatim>\<open>li_click_key_handler\<close> (lines 97-110)\<close>

datatype ui_event = MouseEvent | KeyboardEvent string

text \<open>\<^verbatim>\<open>event instanceof KeyboardEvent && !['Enter', ' '].includes(event.key)\<close>\<close>

fun ignored_key :: "ui_event \<Rightarrow> bool" where
  "ignored_key MouseEvent = False"
| "ignored_key (KeyboardEvent k) = (k \<notin> set [''Enter'', '' ''])"

text \<open>\<^verbatim>\<open>classList.add\<close> adds a token that is not yet there.\<close>

definition class_add :: "ref \<Rightarrow> string \<Rightarrow> browser \<Rightarrow> browser" where
  "class_add node c b =
     (if c \<in> set (classList b node) then b
      else b\<lparr>classList := (classList b)(node := classList b node @ [c])\<rparr>)"

text \<open>
  \<^verbatim>\<open>const id = getHeadingIds && getHeadingIds(node)\<close>: a missing function and the
  empty string are both falsy. The function reads the document, which recording a scroll
  command does not alter, so it is applied to the browser as the handler found it.
\<close>

definition heading_id :: "toc \<Rightarrow> browser \<Rightarrow> ref \<Rightarrow> string" where
  "heading_id s b node = (case getHeadingIds s of None \<Rightarrow> [] | Some f \<Rightarrow> f b node)"

definition li_click_key_handler :: "ref \<Rightarrow> ui_event \<Rightarrow> toc \<times> browser \<Rightarrow> toc \<times> browser" where
  "li_click_key_handler node event sb =
     (case sb of (s, b) \<Rightarrow>
        if ignored_key event then (s, b)
        else
          let s1 = s\<lparr>open := False\<rparr>;
              b1 = b\<lparr>scroll_requests := scroll_requests b @ [ScrollIntoView node (scrollBehavior s1)]\<rparr>;
              id = heading_id s1 b node;
              b2 = (if id \<noteq> [] then b1\<lparr>location_hash := ''#'' @ id\<rparr> else b1);
              b3 = (if truthy_num (flashClickedHeadingsFor s1)
                    then (class_add node ''toc-clicked'' b2)
                           \<lparr>timeouts := timeouts b2 @ [(flashClickedHeadingsFor s1, node, ''toc-clicked'')]\<rparr>
                    else b2)
          in (s1, b3))"

subsection \<open>\<^verbatim>\<open>scroll_to_active_toc_item\<close> (lines 112-118) and \<^verbatim>\<open>close\<close> (lines 45-47)\<close>

text \<open>
  \<^verbatim>\<open>offsetTop\<close> and \<^verbatim>\<open>offsetHeight\<close> are integers, so
  \<^verbatim>\<open>activeTocLi.offsetTop - nav.offsetHeight / 2\<close> is an exact half-integer.
\<close>

definition scroll_to_active_toc_item :: "behavior \<Rightarrow> toc \<times> browser \<Rightarrow> toc \<times> browser" where
  "scroll_to_active_toc_item beh sb =
     (case sb of (s, b) \<Rightarrow>
        (case (keepActiveTocItemInView s, activeTocLi s, nav s) of
          (True, Some li, Some n) \<Rightarrow>
            (if has_scrollTo b
             then (s, b\<lparr>scroll_requests := scroll_requests b
                      @ [ScrollTo n (of_int (offsetTop b li) - (of_int (offsetHeight b n) / 2)) beh]\<rparr>)
             else (s, b))
        | _ \<Rightarrow> (s, b)))"

text \<open>\<^verbatim>\<open>if (!aside?.contains(event.target)) open = false\<close>\<close>

definition close :: "ref \<Rightarrow> toc \<Rightarrow> browser \<Rightarrow> toc" where
  "close target s b =
     (if \<not> (case aside s of None \<Rightarrow> False | Some a \<Rightarrow> contains b a target)
      then s\<lparr>open := False\<rparr> else s)"

subsection \<open>Reactive statements (lines 39-43 and 121-124)\<close>

text \<open>\<^verbatim>\<open>$: dispatch('open', { open })\<close>\<close>

definition reactive_dispatch :: "toc \<times> browser \<Rightarrow> toc \<times> browser" where
  "reactive_dispatch sb = (case sb of (s, b) \<Rightarrow> (s, b\<lparr>dispatched := dispatched b @ [open s]\<rparr>))"

text \<open>\<^verbatim>\<open>$: desktop = window_width > breakpoint\<close>\<close>

definition reactive_desktop :: "toc \<times> browser \<Rightarrow> toc \<times> browser" where
  "reactive_desktop sb =
     (case sb of (s, b) \<Rightarrow> (s\<lparr>desktop := js_gt (to_number (window_width s)) (breakpoint s)\<rparr>, b))"

text \<open>\<^verbatim>\<open>$: if (open && nav) { set_active_heading(); scroll_to_active_toc_item('instant') }\<close>\<close>

definition reactive_open_nav :: "toc \<times> browser \<Rightarrow> toc \<times> browser" where
  "reactive_open_nav sb =
     (case sb of (s, b) \<Rightarrow>
        if open s \<and> nav s \<noteq> None
        then scroll_to_active_toc_item Instant (set_active_heading b s, b)
        else (s, b))"

text \<open>
  After a handler has run, Svelte re-runs, in source order, the reactive statements one
  of whose variables was invalidated: a boolean or a number is invalidated by an
  assignment that changes it, a bound element (\<^verbatim>\<open>bind:this={nav}\<close>) by every assignment.
  \<open>old\<close> is the component before the handler.
\<close>

definition flush :: "toc \<Rightarrow> bool \<Rightarrow> toc \<times> browser \<Rightarrow> toc \<times> browser" where
  "flush old nav_assigned sb =
     (let sb1 = (if open (fst sb) \<noteq> open old then reactive_dispatch sb else sb);
          sb2 = (if window_width (fst sb1) \<noteq> window_width old \<or> breakpoint (fst sb1) \<noteq> breakpoint old
                 then reactive_desktop sb1 else sb1)
      in if open (fst sb2) \<noteq> open old \<or> nav_assigned then reactive_open_nav sb2 else sb2)"

subsection \<open>The template (lines 127-185)\<close>


text \<open>\<^verbatim>\<open>{#if open || (desktop && headings.length >= minItems)}\<close>: the \<^verbatim>\<open>nav\<close> with the list of entries.\<close>

definition nav_rendered :: "toc \<Rightarrow> bool" where
  "nav_rendered s =
     (open s \<or> (desktop s \<and> js_ge (Fin (of_nat (length (headings s)))) (minItems s)))"

text \<open>
  The events the template binds: on the window \<^verbatim>\<open>bind:innerWidth\<close>, \<^verbatim>\<open>on:scroll\<close>,
  \<^verbatim>\<open>on:click\<close> (with the click's target) and \<^verbatim>\<open>on:scrollend\<close>; the button's
  \<^verbatim>\<open>on:click\<close>; an entry's \<^verbatim>\<open>on:click\<close> and \<^verbatim>\<open>on:keyup\<close> for its heading; and
  \<^verbatim>\<open>bind:this={nav}\<close> and \<^verbatim>\<open>bind:this={tocItems[idx]}\<close>, which assign the element
  when it is created and \<^verbatim>\<open>null\<close> when it is removed.
\<close>

text \<open>\<^verbatim>\<open>tocItems[idx] = v\<close>: an assignment past the end of a JavaScript array fills the gap with holes.\<close>

definition array_set :: "'a option list \<Rightarrow> nat \<Rightarrow> 'a option \<Rightarrow> 'a option list" where
  "array_set xs idx v =
     (if idx < length xs then xs[idx := v]
      else xs @ replicate (idx - length xs) None @ [v])"

datatype event =
    InnerWidth jsnum
  | Scroll
  | WindowClick ref
  | Scrollend
  | ButtonClick
  | LiEvent ref ui_event
  | BindNav "ref option"
  | BindTocItem nat "ref option"

fun handler :: "event \<Rightarrow> toc \<times> browser \<Rightarrow> toc \<times> browser" where
  "handler (InnerWidth w) (s, b) = (s\<lparr>window_width := Some w\<rparr>, b)"
| "handler Scroll (s, b) = (set_active_heading b s, b)"
| "handler (WindowClick target) (s, b) = (close target s b, b)"
| "handler Scrollend (s, b) = scroll_to_active_toc_item Smooth (s, b)"
| "handler ButtonClick (s, b) = (s\<lparr>open := True\<rparr>, b)"
| "handler (LiEvent node e) (s, b) = li_click_key_handler node e (s, b)"
| "handler (BindNav v) (s, b) = (s\<lparr>nav := v\<rparr>, b)"
| "handler (BindTocItem idx v) (s, b) = (s\<lparr>tocItems := array_set (tocItems s) idx v\<rparr>, b)"

fun is_bind_nav :: "event \<Rightarrow> bool" where
  "is_bind_nav (BindNav v) = True"
| "is_bind_nav _ = False"

definition step :: "event \<Rightarrow> toc \<times> browser \<Rightarrow> toc \<times> browser" where
  "step e sb = flush (fst sb) (is_bind_nav e) (handler e sb)"


subsection \<open>Properties stated over the model\<close>

text \<open>
  The index the specification describes for the active heading: scan the positions from
  the last to the first, take the first one above the threshold, and fall back to
  index 0 when there is none.
\<close>

definition spec_active_index :: "jsnum list \<Rightarrow> jsnum \<Rightarrow> nat" where
  "spec_active_index tops off =
     (case find (\<lambda>i. js_lt (tops ! i) off) (rev [0..<length tops]) of
        Some i \<Rightarrow> i
      | None \<Rightarrow> 0)"

text \<open>The same scan over the first \<open>n\<close> headings of a component, as the loop sees them.\<close>

definition scan_index :: "browser \<Rightarrow> toc \<Rightarrow> nat \<Rightarrow> nat" where
  "scan_index b s n =
     (case find (\<lambda>i. js_lt (rect_top b (headings s ! i)) (activeHeadingScrollOffset s)) (rev [0..<n]) of
        Some i \<Rightarrow> i
      | None \<Rightarrow> 0)"

text \<open>\<open>desktop\<close> agrees with the width the component last saw and the breakpoint.\<close>

definition desktop_current :: "toc \<Rightarrow> bool" where
  "desktop_current s = (desktop s = js_gt (to_number (window_width s)) (breakpoint s))"






subsection \<open>A concrete page\<close>

text \<open>
  A document with three headings (elements 1, 2, 3; the first scrolled past, the second
  50 pixels below the top of the viewport, the third further down, and the third without
  an id), whose body is element 0; and a component on a 500 pixel wide window with its
  panel open: \<^verbatim>\<open>aside\<close> is element 30, \<^verbatim>\<open>nav\<close> element 20, the entries elements
  11, 12, 13.
\<close>

definition demo_browser :: browser where
  "demo_browser = \<lparr>
     has_document = True,
     querySelectorAll = (\<lambda>sel. if sel = '':is(h2, h3, h4):not(.toc-exclude)'' then Inr [1, 2, 3] else Inr []),
     querySelector = (\<lambda>sel. if sel = ''body'' then Inr (Some 0) else Inr None),
     rect_top = (\<lambda>r. if r = 1 then Fin (- 300) else if r = 2 then Fin 50 else Fin 400),
     node_id = (\<lambda>r. if r = 1 then ''intro'' else if r = 2 then ''usage'' else []),
     contains = (\<lambda>a t. a = 30 \<and> 10 \<le> t),
     offsetTop = (\<lambda>r. 24 * int r),
     offsetHeight = (\<lambda>r. 201),
     has_scrollTo = True,
     classList = (\<lambda>r. []),
     location_hash = [],
     console = [],
     scroll_requests = [],
     timeouts = [],
     observed = None,
     dispatched = [] \<rparr>"

definition demo_toc :: toc where
  "demo_toc = default_toc\<lparr>headings := [1, 2, 3], tocItems := [Some 11, Some 12, Some 13],
     aside := Some 30, nav := Some 20, window_width := Some (Fin 500), desktop := False, open := True\<rparr>"

text \<open>The same component asked to show its panel only from five headings on.\<close>

definition demo_min5 :: toc where
  "demo_min5 = demo_toc\<lparr>minItems := Fin 5\<rparr>"


section \<open>Lemmas about the model\<close>

subsection \<open>The loop of \<^verbatim>\<open>set_active_heading\<close>\<close>

lemma find_Some_mem: "find P xs = Some x \<Longrightarrow> x \<in> set xs"
  by (induction xs) (auto split: if_splits)

lemma scan_index_less: "0 < n \<Longrightarrow> scan_index b s n < n"
  by (auto simp: scan_index_def split: option.splits dest: find_Some_mem)

lemma scan_index_Suc:
  "scan_index b s (Suc i) =
     (if js_lt (rect_top b (headings s ! i)) (activeHeadingScrollOffset s) then i else scan_index b s i)"
  by (simp add: scan_index_def)

lemma scan_index_0 [simp]: "scan_index b s 0 = 0"
  by (simp add: scan_index_def)

text \<open>No heading after the chosen one is above the threshold; the chosen one is, unless it is the fallback.\<close>

lemma scan_index_later:
  "scan_index b s n < j \<Longrightarrow> j < n \<Longrightarrow>
     \<not> js_lt (rect_top b (headings s ! j)) (activeHeadingScrollOffset s)"
proof (induction n)
  case 0
  then show ?case by simp
next
  case (Suc i)
  show ?case
  proof (cases "js_lt (rect_top b (headings s ! i)) (activeHeadingScrollOffset s)")
    case True
    with Suc.prems show ?thesis by (simp add: scan_index_Suc)
  next
    case False
    show ?thesis
    proof (cases "j = i")
      case True
      with False show ?thesis by simp
    next
      case ne: False
      with Suc.prems have "j < i" by simp
      moreover from False Suc.prems have "scan_index b s i < j" by (simp add: scan_index_Suc)
      ultimately show ?thesis by (rule Suc.IH[rotated])
    qed
  qed
qed

lemma scan_index_hit:
  "js_lt (rect_top b (headings s ! scan_index b s n)) (activeHeadingScrollOffset s)
   \<or> (scan_index b s n = 0
       \<and> (\<forall>j<n. \<not> js_lt (rect_top b (headings s ! j)) (activeHeadingScrollOffset s)))"
proof (induction n)
  case 0
  then show ?case by simp
next
  case (Suc i)
  then show ?case by (auto simp: scan_index_Suc less_Suc_eq)
qed

lemma set_active_loop_scan:
  "0 < n \<Longrightarrow> set_active_loop b s n =
     s\<lparr>activeHeading := Some (headings s ! scan_index b s n), activeTocLi := toc_item s (scan_index b s n)\<rparr>"
proof (induction n)
  case 0
  then show ?case by simp
next
  case (Suc i)
  show ?case
  proof (cases "js_lt (rect_top b (headings s ! i)) (activeHeadingScrollOffset s)")
    case True
    then show ?thesis by (simp add: scan_index_Suc)
  next
    case False
    show ?thesis
    proof (cases "i = 0")
      case True
      with False show ?thesis by (simp add: scan_index_Suc)
    next
      case nz: False
      with False Suc.IH show ?thesis by (simp add: scan_index_Suc)
    qed
  qed
qed

lemma scan_index_spec:
  "scan_index b s (length (headings s)) =
     spec_active_index (map (rect_top b) (headings s)) (activeHeadingScrollOffset s)"
proof -
  have "find (\<lambda>i. js_lt (rect_top b (headings s ! i)) (activeHeadingScrollOffset s)) (rev [0..<length (headings s)])
      = find (\<lambda>i. js_lt (map (rect_top b) (headings s) ! i) (activeHeadingScrollOffset s)) (rev [0..<length (headings s)])"
    by (rule find_cong) auto
  then show ?thesis by (simp add: scan_index_def spec_active_index_def)
qed

text \<open>The loop assigns nothing but the two variables of the active selection.\<close>

lemma set_active_loop_frame:
  "set_active_loop b s n =
     s\<lparr>activeHeading := activeHeading (set_active_loop b s n),
       activeTocLi := activeTocLi (set_active_loop b s n)\<rparr>"
  by (induction n) auto

lemma set_active_heading_fields [simp]:
  "headings (set_active_heading b s) = headings s"
  "tocItems (set_active_heading b s) = tocItems s"
  "desktop (set_active_heading b s) = desktop s"
  "window_width (set_active_heading b s) = window_width s"
  "breakpoint (set_active_heading b s) = breakpoint s"
  "open (set_active_heading b s) = open s"
  "nav (set_active_heading b s) = nav s"
  "hide (set_active_heading b s) = hide s"
  "autoHide (set_active_heading b s) = autoHide s"
  "warnOnEmpty (set_active_heading b s) = warnOnEmpty s"
  "headingSelector (set_active_heading b s) = headingSelector s"
  "keepActiveTocItemInView (set_active_heading b s) = keepActiveTocItemInView s"
  unfolding set_active_heading_def
  by (subst set_active_loop_frame, simp)+

lemma demo_tops: "map (rect_top demo_browser) (headings demo_toc) = [Fin (- 300), Fin 50, Fin 400]"
  by (simp add: demo_browser_def demo_toc_def default_toc_def)

lemma demo_active:
  "set_active_heading demo_browser demo_toc = demo_toc\<lparr>activeHeading := Some 2, activeTocLi := Some 12\<rparr>"
  by (simp add: set_active_heading_def demo_toc_def default_toc_def demo_browser_def toc_item_def numeral_3_eq_3)

subsection \<open>What handlers and reactive statements leave alone\<close>

lemma scroll_to_active_toc_item_fst [simp]: "fst (scroll_to_active_toc_item beh sb) = fst sb"
  by (auto simp: scroll_to_active_toc_item_def split: prod.splits option.splits bool.splits)

lemma reactive_open_nav_fields [simp]:
  "desktop (fst (reactive_open_nav sb)) = desktop (fst sb)"
  "window_width (fst (reactive_open_nav sb)) = window_width (fst sb)"
  "breakpoint (fst (reactive_open_nav sb)) = breakpoint (fst sb)"
  by (auto simp: reactive_open_nav_def split: prod.splits)

lemma reactive_dispatch_fst [simp]: "fst (reactive_dispatch sb) = fst sb"
  by (simp add: reactive_dispatch_def split: prod.splits)

lemma reactive_desktop_fields [simp]:
  "desktop (fst (reactive_desktop sb)) = js_gt (to_number (window_width (fst sb))) (breakpoint (fst sb))"
  "window_width (fst (reactive_desktop sb)) = window_width (fst sb)"
  "breakpoint (fst (reactive_desktop sb)) = breakpoint (fst sb)"
  "open (fst (reactive_desktop sb)) = open (fst sb)"
  by (simp_all add: reactive_desktop_def split: prod.splits)

lemma li_click_key_handler_fields [simp]:
  "desktop (fst (li_click_key_handler node e sb)) = desktop (fst sb)"
  "window_width (fst (li_click_key_handler node e sb)) = window_width (fst sb)"
  "breakpoint (fst (li_click_key_handler node e sb)) = breakpoint (fst sb)"
  by (simp_all add: li_click_key_handler_def Let_def split: prod.splits)

lemma close_fields [simp]:
  "desktop (close t s b) = desktop s"
  "window_width (close t s b) = window_width s"
  "breakpoint (close t s b) = breakpoint s"
  by (simp_all add: close_def)

lemma handler_fields:
  "breakpoint (fst (handler e (s, b))) = breakpoint s"
  "desktop (fst (handler e (s, b))) = desktop s"
  "window_width (fst (handler e (s, b))) = (case e of InnerWidth w \<Rightarrow> Some w | _ \<Rightarrow> window_width s)"
  by (cases e; simp)+

lemma flush_desktop:
  "breakpoint (fst sb) = breakpoint old \<Longrightarrow>
   desktop (fst (flush old na sb)) =
     (if window_width (fst sb) \<noteq> window_width old
      then js_gt (to_number (window_width (fst sb))) (breakpoint old) else desktop (fst sb))"
  "window_width (fst (flush old na sb)) = window_width (fst sb)"
  "breakpoint (fst (flush old na sb)) = breakpoint (fst sb)"
  by (simp_all add: flush_def Let_def)


subsection \<open>The scroll commands of each event\<close>



lemma set_active_loop_dispatched:
  "set_active_loop (b\<lparr>dispatched := d\<rparr>) s n = set_active_loop b s n"
  by (induction n) simp_all

lemma set_active_heading_dispatched [simp]:
  "set_active_heading (b\<lparr>dispatched := d\<rparr>) s = set_active_heading b s"
  by (simp add: set_active_heading_def set_active_loop_dispatched)



lemma li_click_key_handler_open [simp]:
  "open (fst (li_click_key_handler node e (s, b))) = (ignored_key e \<and> open s)"
  by (simp add: li_click_key_handler_def Let_def)








section \<open>The active heading\<close>

text \<open>
  Claim C1. For every non-empty heading collection and any positions and threshold,
  \<^verbatim>\<open>set_active_heading\<close> selects exactly one entry: the index \<open>k\<close> that the scan from
  the last heading to the first finds, namely the first heading in that scan whose top is
  above the threshold (\<^verbatim>\<open>top < activeHeadingScrollOffset\<close>), or index 0 when no
  heading qualifies. The active heading becomes \<open>headings ! k\<close>, the active entry
  \<^verbatim>\<open>tocItems[k]\<close>, and nothing else changes.
\<close>

theorem set_active_heading_selects:
  assumes "headings s \<noteq> []"
    and "k = spec_active_index (map (rect_top b) (headings s)) (activeHeadingScrollOffset s)"
  shows "k < length (headings s)
     \<and> set_active_heading b s = s\<lparr>activeHeading := Some (headings s ! k), activeTocLi := toc_item s k\<rparr>
     \<and> (\<forall>j. k < j \<and> j < length (headings s) \<longrightarrow>
           \<not> js_lt (rect_top b (headings s ! j)) (activeHeadingScrollOffset s))
     \<and> (js_lt (rect_top b (headings s ! k)) (activeHeadingScrollOffset s)
         \<or> (k = 0 \<and> (\<forall>j<length (headings s).
               \<not> js_lt (rect_top b (headings s ! j)) (activeHeadingScrollOffset s))))"
proof -
  let ?n = "length (headings s)"
  from assms(1) have pos: "0 < ?n" by simp
  from assms(2) have k: "k = scan_index b s ?n" by (simp add: scan_index_spec)
  have "k < ?n" using scan_index_less[OF pos] k by simp
  moreover have "set_active_heading b s
      = s\<lparr>activeHeading := Some (headings s ! k), activeTocLi := toc_item s k\<rparr>"
    using set_active_loop_scan[OF pos, of b s] k by (simp add: set_active_heading_def)
  moreover have "\<forall>j. k < j \<and> j < ?n \<longrightarrow>
      \<not> js_lt (rect_top b (headings s ! j)) (activeHeadingScrollOffset s)"
    using scan_index_later[of b s ?n] k by blast
  moreover have "js_lt (rect_top b (headings s ! k)) (activeHeadingScrollOffset s)
      \<or> (k = 0 \<and> (\<forall>j<?n. \<not> js_lt (rect_top b (headings s ! j)) (activeHeadingScrollOffset s)))"
    using scan_index_hit[of b s ?n] k by simp
  ultimately show ?thesis by blast
qed

text \<open>On the concrete page the second heading is the last one above the threshold of 100.\<close>

theorem set_active_heading_selects_witness:
  "headings demo_toc \<noteq> []
   \<and> spec_active_index (map (rect_top demo_browser) (headings demo_toc)) (activeHeadingScrollOffset demo_toc) = 1
   \<and> set_active_heading demo_browser demo_toc = demo_toc\<lparr>activeHeading := Some 2, activeTocLi := Some 12\<rparr>"
proof -
  have ne: "headings demo_toc \<noteq> []"
    by (simp add: demo_toc_def)
  have k: "1 = spec_active_index (map (rect_top demo_browser) (headings demo_toc)) (activeHeadingScrollOffset demo_toc)"
    by (simp add: demo_tops spec_active_index_def) (simp add: demo_toc_def default_toc_def)
  have "headings demo_toc ! 1 = 2" "toc_item demo_toc 1 = Some 12"
    by (simp_all add: demo_toc_def toc_item_def)
  with set_active_heading_selects[OF ne k] ne k show ?thesis by simp
qed

text \<open>
  Claim C5. Recomputing the active heading is idempotent: with the heading collection
  and the heading positions unchanged, a second call of \<^verbatim>\<open>set_active_heading\<close> leaves
  the component exactly as the first call left it, so active heading and active entry
  are the same after two calls as after one.
\<close>

theorem set_active_heading_idempotent:
  "set_active_heading b (set_active_heading b s) = set_active_heading b s"
proof (cases "headings s = []")
  case True
  then show ?thesis by (simp add: set_active_heading_def)
next
  case False
  then have pos: "0 < length (headings s)" by simp
  define k where "k = scan_index b s (length (headings s))"
  define s' where "s' = s\<lparr>activeHeading := Some (headings s ! k), activeTocLi := toc_item s k\<rparr>"
  have once: "set_active_loop b s (length (headings s)) = s'"
    using set_active_loop_scan[OF pos, of b s] by (simp add: s'_def k_def)
  have k': "scan_index b s' (length (headings s)) = k"
    by (simp add: scan_index_def k_def s'_def)
  have "set_active_loop b s' (length (headings s)) = s'"
    using set_active_loop_scan[OF pos, of b s'] by (simp add: k') (simp add: s'_def toc_item_def)
  then show ?thesis by (simp add: set_active_heading_def once) (simp add: s'_def)
qed

theorem set_active_heading_idempotent_witness:
  "set_active_heading demo_browser (set_active_heading demo_browser demo_toc)
     = demo_toc\<lparr>activeHeading := Some 2, activeTocLi := Some 12\<rparr>"
  using set_active_heading_idempotent[of demo_browser demo_toc]
  by (simp add: demo_active)

text \<open>
  Claim C9. With an empty heading collection \<^verbatim>\<open>set_active_heading\<close> assigns nothing:
  the component is unchanged, so the stored active heading and active entry keep their
  old values. In particular a re-query that finds no heading leaves the active selection
  of the earlier, non-empty collection in place.
\<close>

theorem set_active_heading_empty:
  "(headings s = [] \<longrightarrow> set_active_heading b s = s)
   \<and> (has_document b \<and> querySelectorAll b (headingSelector s) = Inr [] \<longrightarrow>
        (\<exists>s' b'. requery_headings (s, b) = Inr (s', b') \<and> headings s' = []
           \<and> activeHeading s' = activeHeading s \<and> activeTocLi s' = activeTocLi s))"
proof (intro conjI impI)
  assume "headings s = []"
  then have "length (headings s) = 0" by simp
  then show "set_active_heading b s = s"
    by (simp add: set_active_heading_def)
next
  assume q: "has_document b \<and> querySelectorAll b (headingSelector s) = Inr []"
  let ?s1 = "set_active_heading b (s\<lparr>headings := []\<rparr>)"
  have same: "?s1 = s\<lparr>headings := []\<rparr>"
    by (simp add: set_active_heading_def)
  let ?s' = "if autoHide ?s1 then ?s1\<lparr>hide := True\<rparr> else ?s1"
  let ?b' = "if warnOnEmpty ?s1 then b\<lparr>console := console b @ [empty_warning ?s1]\<rparr> else b"
  from q have "requery_headings (s, b) = Inr (?s', ?b')"
    by (simp add: requery_headings_def Let_def)
  moreover have "headings ?s' = []" "activeHeading ?s' = activeHeading s" "activeTocLi ?s' = activeTocLi s"
    by (simp_all add: same)
  ultimately show "\<exists>s' b'. requery_headings (s, b) = Inr (s', b') \<and> headings s' = []
      \<and> activeHeading s' = activeHeading s \<and> activeTocLi s' = activeTocLi s"
    by blast
qed

text \<open>The selection of the second heading survives a re-query with a selector that matches nothing.\<close>

theorem set_active_heading_empty_witness:
  "set_active_heading demo_browser (demo_toc\<lparr>headings := [], activeHeading := Some 2, activeTocLi := Some 12\<rparr>)
     = demo_toc\<lparr>headings := [], activeHeading := Some 2, activeTocLi := Some 12\<rparr>
   \<and> (\<exists>s' b'. requery_headings
          (demo_toc\<lparr>headingSelector := ''h5'', activeHeading := Some 2, activeTocLi := Some 12\<rparr>, demo_browser)
            = Inr (s', b')
        \<and> headings s' = [] \<and> activeHeading s' = Some 2 \<and> activeTocLi s' = Some 12)"
  using set_active_heading_empty[of "demo_toc\<lparr>headings := [], activeHeading := Some 2, activeTocLi := Some 12\<rparr>" demo_browser]
        set_active_heading_empty[of "demo_toc\<lparr>headingSelector := ''h5'', activeHeading := Some 2, activeTocLi := Some 12\<rparr>" demo_browser]
  by (simp add: demo_browser_def)

section \<open>Rendering the panel\<close>

text \<open>
  Claim C2 as stated (with fewer headings than \<^verbatim>\<open>minItems\<close> the navigation content is
  not rendered, whatever the open flag) fails: the guard of the \<^verbatim>\<open>nav\<close> is
  \<^verbatim>\<open>open || (desktop && headings.length >= minItems)\<close>, and the concrete component
  has three headings, \<^verbatim>\<open>minItems\<close> 5 and an open panel.
\<close>

theorem nav_rendered_counterexample:
  "js_lt (Fin (of_nat (length (headings demo_min5)))) (minItems demo_min5) \<and> nav_rendered demo_min5"
  by (simp add: demo_min5_def demo_toc_def default_toc_def nav_rendered_def)

text \<open>
  Claim C2, amended. In every state with fewer headings than \<^verbatim>\<open>minItems\<close> the
  navigation content is rendered exactly when the open flag is set: it is not rendered
  while the panel is closed, on a desktop width as on a mobile one, and it is rendered
  while the panel is open.
\<close>

theorem nav_rendered_below_minItems:
  assumes "js_lt (Fin (of_nat (length (headings s)))) (minItems s)"
  shows "nav_rendered s = open s"
  using assms by (auto simp: nav_rendered_def js_ge_def)

theorem nav_rendered_below_minItems_witness:
  "js_lt (Fin (of_nat (length (headings (demo_min5\<lparr>open := False, desktop := True\<rparr>)))))
         (minItems (demo_min5\<lparr>open := False, desktop := True\<rparr>))
   \<and> \<not> nav_rendered (demo_min5\<lparr>open := False, desktop := True\<rparr>)"
proof -
  have h: "js_lt (Fin (of_nat (length (headings (demo_min5\<lparr>open := False, desktop := True\<rparr>)))))
                 (minItems (demo_min5\<lparr>open := False, desktop := True\<rparr>))"
    by (simp add: demo_min5_def demo_toc_def default_toc_def)
  from nav_rendered_below_minItems[OF h] h show ?thesis by simp
qed

section \<open>Discovering the headings\<close>

text \<open>
  Claim C3. A re-query of the headings that yields the collection \<open>hs\<close> returns, and
  afterwards: if \<open>hs\<close> is empty, the diagnostic has been written to the console exactly
  when warn-on-empty is enabled, and the hidden flag is true when auto-hide is enabled
  (and unchanged otherwise); if \<open>hs\<close> is not empty, nothing is written, and a hidden
  flag that was set with auto-hide enabled is cleared to false (and is unchanged
  otherwise).
\<close>

theorem requery_headings_policy:
  assumes "has_document b" and "querySelectorAll b (headingSelector s) = Inr hs"
  shows "\<exists>s' b'. requery_headings (s, b) = Inr (s', b') \<and> headings s' = hs
     \<and> (hs = [] \<longrightarrow>
           console b' = (if warnOnEmpty s then console b @ [empty_warning s] else console b)
           \<and> hide s' = (autoHide s \<or> hide s))
     \<and> (hs \<noteq> [] \<longrightarrow> console b' = console b \<and> hide s' = (hide s \<and> \<not> autoHide s))"
  using assms
  by (auto simp: requery_headings_def Let_def empty_warning_def)

text \<open>
  With a selector that matches nothing the panel is hidden and the warning printed; a
  hidden panel is shown again by a re-query that finds the three headings.
\<close>

theorem requery_headings_policy_witness:
  "has_document demo_browser
   \<and> (\<exists>s' b'. requery_headings (demo_toc\<lparr>headingSelector := ''h5''\<rparr>, demo_browser) = Inr (s', b')
         \<and> headings s' = []
         \<and> console b' = [''svelte-toc found no headings for headingSelector='' @ [CHR 0x27] @ ''h5''
                           @ [CHR 0x27] @ ''. Hiding table of contents.'']
         \<and> hide s')
   \<and> (\<exists>s' b'. requery_headings (demo_toc\<lparr>hide := True\<rparr>, demo_browser) = Inr (s', b')
         \<and> headings s' = [1, 2, 3] \<and> console b' = [] \<and> \<not> hide s')"
proof -
  have d: "has_document demo_browser"
    by (simp add: demo_browser_def)
  have q1: "querySelectorAll demo_browser (headingSelector (demo_toc\<lparr>headingSelector := ''h5''\<rparr>)) = Inr []"
    by (simp add: demo_browser_def)
  have q2: "querySelectorAll demo_browser (headingSelector (demo_toc\<lparr>hide := True\<rparr>)) = Inr [1, 2, 3]"
    by (simp add: demo_browser_def demo_toc_def default_toc_def)
  have c: "console demo_browser = []"
    by (simp add: demo_browser_def)
  have f: "warnOnEmpty demo_toc" "autoHide demo_toc"
    by (simp_all add: demo_toc_def default_toc_def)
  from requery_headings_policy[OF d q1] requery_headings_policy[OF d q2] d c f
  show ?thesis by (simp add: empty_warning_def)
qed

text \<open>
  Claim C4. When \<^verbatim>\<open>pageBody\<close> is a selector string and no element is found for it at
  mount, \<^verbatim>\<open>onMount\<close> throws: its result is an error, never a mounted component. When
  \<^verbatim>\<open>document.querySelector\<close> returns \<^verbatim>\<open>null\<close> the error is the component's own
  \<^verbatim>\<open>Error\<close>.
\<close>

theorem onMount_missing_body:
  assumes "pageBody s = Selector sel" and "\<forall>el. querySelector b sel \<noteq> Inr (Some el)"
  shows "(\<exists>e. onMount (s, b) = Inl e)
     \<and> (querySelector b sel = Inr None \<longrightarrow>
          onMount (s, b) = Inl (Error ''Could not find page body element: null''))"
  using assms by (auto simp: onMount_def split: sum.splits option.splits)

theorem onMount_missing_body_witness:
  "pageBody (demo_toc\<lparr>pageBody := Selector ''main''\<rparr>) = Selector ''main''
   \<and> querySelector demo_browser ''main'' = Inr None
   \<and> onMount (demo_toc\<lparr>pageBody := Selector ''main''\<rparr>, demo_browser)
       = Inl (Error ''Could not find page body element: null'')"
proof -
  have p: "pageBody (demo_toc\<lparr>pageBody := Selector ''main''\<rparr>) = Selector ''main''"
    by simp
  have q: "querySelector demo_browser ''main'' = Inr None"
    by (simp add: demo_browser_def)
  then have n: "\<forall>el. querySelector demo_browser ''main'' \<noteq> Inr (Some el)"
    by simp
  from onMount_missing_body[OF p n] p q show ?thesis by simp
qed

section \<open>Activating an entry\<close>

text \<open>
  Claim C7. For every keyboard event whose key is neither Enter nor Space the handler
  of an entry returns without any effect: component and browser are exactly as before,
  so the open flag, the scroll commands issued to the document, the location fragment
  and the heading's class list are unchanged; no reactive statement runs afterwards
  either.
\<close>

theorem li_click_key_handler_ignores_key:
  assumes "k \<noteq> ''Enter''" and "k \<noteq> '' ''"
  shows "li_click_key_handler node (KeyboardEvent k) (s, b) = (s, b)
       \<and> step (LiEvent node (KeyboardEvent k)) (s, b) = (s, b)"
  using assms by (simp add: li_click_key_handler_def step_def flush_def)

theorem li_click_key_handler_ignores_key_witness:
  "''Tab'' \<noteq> ''Enter'' \<and> ''Tab'' \<noteq> '' ''
   \<and> li_click_key_handler 2 (KeyboardEvent ''Tab'') (demo_toc, demo_browser) = (demo_toc, demo_browser)
   \<and> step (LiEvent 2 (KeyboardEvent ''Tab'')) (demo_toc, demo_browser) = (demo_toc, demo_browser)"
  using li_click_key_handler_ignores_key[of "''Tab''" 2 demo_toc demo_browser]
  by simp

text \<open>
  Claim C10. When the identifier of the activated heading is empty, the handler of an
  entry, for an event it does not ignore, still closes the panel and still issues the
  scroll of the document to the heading, and leaves the location fragment as it was.
\<close>

theorem li_click_key_handler_empty_id:
  assumes "\<not> ignored_key e" and "heading_id s b node = []"
  shows "open (fst (li_click_key_handler node e (s, b))) = False
       \<and> scroll_requests (snd (li_click_key_handler node e (s, b)))
           = scroll_requests b @ [ScrollIntoView node (scrollBehavior s)]
       \<and> location_hash (snd (li_click_key_handler node e (s, b))) = location_hash b"
  using assms
  by (simp add: li_click_key_handler_def Let_def heading_id_def class_add_def)

text \<open>The third heading of the concrete page has no id; the fragment stays at \<^verbatim>\<open>#intro\<close>.\<close>

theorem li_click_key_handler_empty_id_witness:
  "\<not> ignored_key (KeyboardEvent ''Enter'')
   \<and> heading_id demo_toc (demo_browser\<lparr>location_hash := ''#intro''\<rparr>) 3 = []
   \<and> open (fst (li_click_key_handler 3 (KeyboardEvent ''Enter'')
                  (demo_toc, demo_browser\<lparr>location_hash := ''#intro''\<rparr>))) = False
   \<and> scroll_requests (snd (li_click_key_handler 3 (KeyboardEvent ''Enter'')
                  (demo_toc, demo_browser\<lparr>location_hash := ''#intro''\<rparr>))) = [ScrollIntoView 3 Smooth]
   \<and> location_hash (snd (li_click_key_handler 3 (KeyboardEvent ''Enter'')
                  (demo_toc, demo_browser\<lparr>location_hash := ''#intro''\<rparr>))) = ''#intro''"
proof -
  have k: "\<not> ignored_key (KeyboardEvent ''Enter'')"
    by simp
  have i: "heading_id demo_toc (demo_browser\<lparr>location_hash := ''#intro''\<rparr>) 3 = []"
    by (simp add: heading_id_def demo_toc_def default_toc_def demo_browser_def)
  have r: "scroll_requests (demo_browser\<lparr>location_hash := ''#intro''\<rparr>) = []"
          "scrollBehavior demo_toc = Smooth"
    by (simp_all add: demo_browser_def demo_toc_def default_toc_def)
  from li_click_key_handler_empty_id[OF k i] k i r show ?thesis by simp
qed

section \<open>The viewport width\<close>

text \<open>
  Claim C8. The desktop flag is a function of the viewport width the component has seen
  and of the breakpoint: the reactive statement sets it to \<^verbatim>\<open>window_width > breakpoint\<close>,
  every event keeps it equal to that comparison, and every change of the width
  recomputes it, so that for finite numbers it is true exactly when the width is
  strictly greater than the breakpoint.
\<close>

theorem desktop_pure_function:
  "desktop_current (fst (reactive_desktop (s, b)))
   \<and> (desktop_current s \<longrightarrow> desktop_current (fst (step e (s, b))))
   \<and> (window_width s \<noteq> Some w \<longrightarrow>
        window_width (fst (step (InnerWidth w) (s, b))) = Some w
        \<and> desktop (fst (step (InnerWidth w) (s, b))) = js_gt w (breakpoint s))
   \<and> (window_width s \<noteq> Some (Fin x) \<and> breakpoint s = Fin bp \<longrightarrow>
        desktop (fst (step (InnerWidth (Fin x)) (s, b))) = (bp < x))"
proof -
  have a: "desktop_current (fst (reactive_desktop (s, b)))"
    by (simp add: desktop_current_def)
  have b: "desktop_current (fst (step e (s, b)))" if inv: "desktop_current s"
  proof (cases "window_width (fst (handler e (s, b))) = window_width s")
    case True
    with inv show ?thesis
      by (simp add: desktop_current_def step_def flush_desktop handler_fields)
  next
    case False
    then show ?thesis
      by (simp add: desktop_current_def step_def flush_desktop handler_fields)
  qed
  have c: "window_width (fst (step (InnerWidth w) (s, b))) = Some w
        \<and> desktop (fst (step (InnerWidth w) (s, b))) = js_gt w (breakpoint s)"
    if "window_width s \<noteq> Some w" for w
    using that by (simp add: step_def flush_desktop to_number_def)
  from c[of "Fin x"] have d: "desktop (fst (step (InnerWidth (Fin x)) (s, b))) = (bp < x)"
    if "window_width s \<noteq> Some (Fin x)" "breakpoint s = Fin bp"
    using that by (simp add: js_gt_def)
  from a b c d show ?thesis by blast
qed

text \<open>A width of 1400 with the default breakpoint of 1000 is a desktop; a width of 500 is not.\<close>

theorem desktop_pure_function_witness:
  "window_width default_toc \<noteq> Some (Fin 1400) \<and> breakpoint default_toc = Fin 1000
   \<and> desktop (fst (step (InnerWidth (Fin 1400)) (default_toc, demo_browser))) = True
   \<and> desktop (fst (step (InnerWidth (Fin 500)) (default_toc, demo_browser))) = False"
  using desktop_pure_function[of default_toc demo_browser "InnerWidth (Fin 1400)" "Fin 1400" 1400 1000]
        desktop_pure_function[of default_toc demo_browser "InnerWidth (Fin 500)" "Fin 500" 500 1000]
  by (simp add: default_toc_def js_gt_def)

section \<open>Keeping the active entry in view\<close>




end
